theory Spec2Isabelle
  imports Complex_Main
begin

section \<open>The Zoom token cache of team.py\<close>

text \<open>
  The only logic of team.py is the class \<open>CustomZoomTool\<close>: a subclass of the
  library class \<open>ZoomTool\<close> that caches an OAuth access token and its expiry. Its three
  methods (\<open>__init__\<close>, \<open>get_access_token\<close>, \<open>_set_parent_token\<close>) are embedded here
  as functions on a record of the object's attributes. What the method reads from the
  outside during one call (the clock, the answer to the HTTP request) is an explicit
  argument; what it does to the outside (the request it sends, the line it logs) is
  part of its result, next to the returned value or the raised exception.

  Timestamps are Python floats in the source. A finite float is modelled as an exact
  real, so the rounding of \<open>time.time() + expires_in - 60\<close> is not part of the model
  (nor is the overflow of a sum of finite floats, which no clock reading of seconds
  since the epoch can cause); the infinities and NaN, which a JSON body can carry, are
  values of their own.
\<close>

subsection \<open>Python values\<close>

text \<open>
  A float: finite, or one of the three special values. \<open>json\<close> decodes \<open>Infinity\<close>,
  \<open>-Infinity\<close>, \<open>NaN\<close> and literals beyond the double range to them.
\<close>

datatype pyfloat = Finite real | PosInf | NegInf | NaN

text \<open>The comparison \<open><\<close> of floats: false whenever an operand is NaN.\<close>

fun float_less :: "pyfloat \<Rightarrow> pyfloat \<Rightarrow> bool" where
  "float_less NaN y = False"
| "float_less x NaN = False"
| "float_less (Finite a) (Finite b) = (a < b)"
| "float_less (Finite a) PosInf = True"
| "float_less (Finite a) NegInf = False"
| "float_less PosInf y = False"
| "float_less NegInf NegInf = False"
| "float_less NegInf y = True"

text \<open>
  The sum of floats. Subtracting 60 is adding \<open>-60\<close>; an infinity absorbs a finite
  operand, opposite infinities and NaN give NaN.
\<close>

fun float_add :: "pyfloat \<Rightarrow> pyfloat \<Rightarrow> pyfloat" where
  "float_add NaN y = NaN"
| "float_add x NaN = NaN"
| "float_add (Finite a) (Finite b) = Finite (a + b)"
| "float_add PosInf NegInf = NaN"
| "float_add NegInf PosInf = NaN"
| "float_add PosInf y = PosInf"
| "float_add x PosInf = PosInf"
| "float_add NegInf y = NegInf"
| "float_add x NegInf = NegInf"

text \<open>
  The values that \<open>response.json()\<close> can put under a key of the decoded body, and that
  the attribute \<open>access_token\<close> can therefore hold. A float carries the text that
  \<open>str()\<close> prints for it, and a list or dict is kept only as its truth value and that
  text: the methods use nothing else of them.
\<close>

datatype pyval =
    PNone
  | PBool bool
  | PInt int
  | PFloat pyfloat string
  | PStr string
  | PContainer bool string

text \<open>
  Truth value of an object, as the \<open>and\<close> of line 41 tests it. Of the floats only
  zero is false.
\<close>

fun py_truthy :: "pyval \<Rightarrow> bool" where
  "py_truthy PNone = False"
| "py_truthy (PBool b) = b"
| "py_truthy (PInt i) = (i \<noteq> 0)"
| "py_truthy (PFloat x r) = (x \<noteq> Finite 0)"
| "py_truthy (PStr s) = (s \<noteq> [])"
| "py_truthy (PContainer b r) = b"

definition digit_char :: "nat \<Rightarrow> char" where
  "digit_char d = ''0123456789'' ! d"

fun py_str_nat :: "nat \<Rightarrow> string" where
  "py_str_nat n =
     (if n < 10 then [digit_char n] else py_str_nat (n div 10) @ [digit_char (n mod 10)])"

declare py_str_nat.simps [simp del]

text \<open>The builtin \<open>str()\<close>.\<close>

fun py_str :: "pyval \<Rightarrow> string" where
  "py_str PNone = ''None''"
| "py_str (PBool b) = (if b then ''True'' else ''False'')"
| "py_str (PInt i) = (if i < 0 then CHR ''-'' # py_str_nat (nat (- i)) else py_str_nat (nat i))"
| "py_str (PFloat x r) = r"
| "py_str (PStr s) = s"
| "py_str (PContainer b r) = r"

text \<open>
  The exceptions that leave \<open>get_access_token\<close>: the handler of line 60 catches
  \<open>requests.RequestException\<close> only, so a KeyError, TypeError or OverflowError raised
  while the decoded body is read reaches the caller.
\<close>

datatype exn = KeyError string | TypeError | OverflowError

text \<open>
  An int converts to a float when, rounded to the nearest double, it is within the
  double range: its absolute value is below \<open>2^1024 - 2^970\<close>, half way between the
  largest double and \<open>2^1024\<close>. From there on the conversion raises OverflowError.
\<close>

definition float_int_limit :: int where
  "float_int_limit = 2 ^ 1024 - 2 ^ 970"

text \<open>
  The operand \<open>expires_in\<close> of \<open>time.time() + expires_in\<close>: a float is added as it
  is; an int, or a bool (an int subclass), is converted to a float first, which raises
  OverflowError for an int out of range; any other object makes the addition raise
  TypeError.
\<close>

fun py_number :: "pyval \<Rightarrow> exn + pyfloat" where
  "py_number (PInt i) =
     (if \<bar>i\<bar> < float_int_limit then Inr (Finite (real_of_int i)) else Inl OverflowError)"
| "py_number (PBool b) = Inr (Finite (if b then 1 else 0))"
| "py_number (PFloat x r) = Inr x"
| "py_number PNone = Inl TypeError"
| "py_number (PStr s) = Inl TypeError"
| "py_number (PContainer b r) = Inl TypeError"

text \<open>
  The object that \<open>response.json()\<close> returns: a dict, or any other JSON document (a
  list, a string, a number, \<open>null\<close>), on which the subscript of line 54 raises
  TypeError.
\<close>

datatype json_doc = JObject "(string \<times> pyval) list" | JOther

fun py_getitem :: "json_doc \<Rightarrow> string \<Rightarrow> exn + pyval" where
  "py_getitem (JObject kvs) k =
     (case map_of kvs k of None \<Rightarrow> Inl (KeyError k) | Some v \<Rightarrow> Inr v)"
| "py_getitem JOther k = Inl TypeError"

subsection \<open>The object\<close>

text \<open>
  The attributes of the library class: the three credentials, which
  \<open>os.getenv\<close> leaves \<open>None\<close> when a variable is not set, and the name-mangled private
  attribute \<open>_ZoomTool__access_token\<close>.
\<close>

record ZoomTool =
  account_id :: "string option"
  client_id :: "string option"
  client_secret :: "string option"
  ZoomTool__access_token :: "string option"

record CustomZoomTool = ZoomTool +
  token_url :: string
  access_token :: pyval
  token_expires_at :: pyfloat

text \<open>
  The constructor of the library class, as line 30 calls it: it keeps the credentials
  and starts with no token. The \<open>name\<close> argument goes to the tool registry and is not
  modelled.
\<close>

definition ZoomTool_init :: "string option \<Rightarrow> string option \<Rightarrow> string option \<Rightarrow> ZoomTool" where
  "ZoomTool_init acct cid secret =
     \<lparr>account_id = acct, client_id = cid, client_secret = secret,
      ZoomTool__access_token = None\<rparr>"

text \<open>\<open>CustomZoomTool.__init__\<close>, lines 23 to 33.\<close>

definition CustomZoomTool_init ::
  "string option \<Rightarrow> string option \<Rightarrow> string option \<Rightarrow> CustomZoomTool" where
  "CustomZoomTool_init acct cid secret =
     ZoomTool.extend (ZoomTool_init acct cid secret)
       (CustomZoomTool.fields ''https://zoom.us/oauth/token'' PNone (Finite 0))"

text \<open>\<open>_set_parent_token\<close>, lines 64 to 67: the write is guarded by \<open>if token\<close>.\<close>

definition set_parent_token :: "CustomZoomTool \<Rightarrow> string \<Rightarrow> CustomZoomTool" where
  "set_parent_token self token =
     (if token \<noteq> [] then self\<lparr>ZoomTool__access_token := Some token\<rparr> else self)"

subsection \<open>The outside world of one call\<close>

text \<open>The arguments of the one \<open>requests.post\<close> call of lines 48 to 50.\<close>

record request =
  http_method :: string
  url :: string
  headers :: "(string \<times> string) list"
  form_data :: "(string \<times> string option) list"
  auth :: "string option \<times> string option"

text \<open>
  What the network does with the request: no response at all (a connection error, a
  timeout; \<open>requests.post\<close> then raises a \<open>RequestException\<close> with the given text), or
  a response with a status code and a payload. The string of a response is the text
  of the \<open>HTTPError\<close> that line 51 raises for it, if it raises. The payload is what
  \<open>response.json()\<close> makes of the body: the \<open>JSONDecodeError\<close> of requests (a
  \<open>RequestException\<close> too) with its text, or the decoded document.
\<close>

datatype payload = NotJSON string | JSON json_doc

datatype http_outcome = NoResponse string | Response nat string payload

text \<open>
  \<open>response.raise_for_status()\<close>, line 51: the library raises \<open>HTTPError\<close> for the
  status codes from 400 to 599 and returns for every other one.
\<close>

definition raises_for_status :: "nat \<Rightarrow> bool" where
  "raises_for_status status \<longleftrightarrow> 400 \<le> status \<and> status < 600"

text \<open>
  The ways through lines 48 to 53: the exception that the handler of line 60 will
  catch, raised by \<open>requests.post\<close>, by \<open>raise_for_status\<close> or by \<open>response.json()\<close>,
  or the decoded body.
\<close>

datatype reply =
    TransportFailure string
  | HTTPFailure nat string
  | InvalidJSON string
  | Body json_doc

fun exchange :: "http_outcome \<Rightarrow> reply" where
  "exchange (NoResponse e) = TransportFailure e"
| "exchange (Response status e body) =
     (if raises_for_status status then HTTPFailure status e
      else (case body of NotJSON m \<Rightarrow> InvalidJSON m | JSON token_info \<Rightarrow> Body token_info))"

text \<open>
  The readings of one call: \<open>now_check\<close> is \<open>time.time()\<close> at line 41 (read only when
  the cached token is truthy), \<open>received\<close> is what the network does with the request,
  \<open>now_store\<close> is \<open>time.time()\<close> at line 56. The clock gives finite floats.
\<close>

record call_env =
  now_check :: real
  received :: http_outcome
  now_store :: real

definition reply :: "call_env \<Rightarrow> reply" where
  "reply env = exchange (received env)"

text \<open>
  The result of one call: the returned string or the exception that escapes, the
  object as the call leaves it, the requests sent and the lines passed to
  \<open>logger.error\<close>.
\<close>

record outcome =
  ret :: "exn + string"
  state :: CustomZoomTool
  requests :: "request list"
  logged :: "string list"

subsection \<open>get_access_token\<close>

definition token_request :: "CustomZoomTool \<Rightarrow> request" where
  "token_request self =
     \<lparr>http_method = ''POST'',
      url = token_url self,
      headers = [(''Content-Type'', ''application/x-www-form-urlencoded'')],
      form_data = [(''grant_type'', Some ''account_credentials''),
                   (''account_id'', account_id self)],
      auth = (client_id self, client_secret self)\<rparr>"

text \<open>The handler of lines 60 to 62; \<open>sent\<close> is the request that was posted.\<close>

definition request_failed :: "CustomZoomTool \<Rightarrow> request \<Rightarrow> string \<Rightarrow> outcome" where
  "request_failed self sent e =
     \<lparr>ret = Inr [], state = self, requests = [sent],
      logged = [''Error fetching access token: '' @ e]\<rparr>"

text \<open>An exception that the handler does not catch.\<close>

definition escapes :: "CustomZoomTool \<Rightarrow> request \<Rightarrow> exn \<Rightarrow> outcome" where
  "escapes self sent e = \<lparr>ret = Inl e, state = self, requests = [sent], logged = []\<rparr>"

text \<open>
  Lines 53 to 59, on the decoded body. The sum of line 56 is
  \<open>(time.time() + expires_in) - 60\<close>.
\<close>

definition store_token :: "CustomZoomTool \<Rightarrow> request \<Rightarrow> json_doc \<Rightarrow> real \<Rightarrow> outcome" where
  "store_token self sent token_info now =
     (case py_getitem token_info ''access_token'' of
        Inl e \<Rightarrow> escapes self sent e
      | Inr tok \<Rightarrow>
          let self1 = self\<lparr>access_token := tok\<rparr> in
          (case py_getitem token_info ''expires_in'' of
             Inl e \<Rightarrow> escapes self1 sent e
           | Inr expires_in \<Rightarrow>
               (case py_number expires_in of
                  Inl e \<Rightarrow> escapes self1 sent e
                | Inr x \<Rightarrow>
                    let self2 = self1\<lparr>token_expires_at :=
                                  float_add (float_add (Finite now) x) (Finite (- 60))\<rparr>;
                        self3 = set_parent_token self2 (py_str (access_token self2))
                    in \<lparr>ret = Inr (py_str (access_token self3)), state = self3,
                        requests = [sent], logged = []\<rparr>)))"

text \<open>The test of line 41.\<close>

definition cache_hit :: "CustomZoomTool \<Rightarrow> call_env \<Rightarrow> bool" where
  "cache_hit self env \<longleftrightarrow>
     py_truthy (access_token self) \<and>
     float_less (Finite (now_check env)) (token_expires_at self)"

definition get_access_token :: "CustomZoomTool \<Rightarrow> call_env \<Rightarrow> outcome" where
  "get_access_token self env =
     (if cache_hit self env
      then \<lparr>ret = Inr (py_str (access_token self)), state = self, requests = [], logged = []\<rparr>
      else
        let sent = token_request self in
        (case reply env of
           TransportFailure e \<Rightarrow> request_failed self sent e
         | HTTPFailure code e \<Rightarrow> request_failed self sent e
         | InvalidJSON e \<Rightarrow> request_failed self sent e
         | Body token_info \<Rightarrow> store_token self sent token_info (now_store env)))"

subsection \<open>Sequences of calls\<close>

text \<open>
  The object after a sequence of calls, and the results of the calls in order. A caller
  that survives an escaping exception goes on with the same object.
\<close>

primrec run :: "CustomZoomTool \<Rightarrow> call_env list \<Rightarrow> CustomZoomTool" where
  "run self [] = self"
| "run self (env # envs) = run (state (get_access_token self env)) envs"

primrec outcomes :: "CustomZoomTool \<Rightarrow> call_env list \<Rightarrow> outcome list" where
  "outcomes self [] = []"
| "outcomes self (env # envs) =
     get_access_token self env # outcomes (state (get_access_token self env)) envs"

subsection \<open>The expiry invariant\<close>

text \<open>
  The invariant of the cached pair speaks of the exchange that issued the token, which
  the object does not record; it is stated over the calls made so far. A call declares
  an expiry for a token when its reply is a body with that \<open>access_token\<close> and an
  \<open>expires_in\<close> that is a number in the float range: the expiry is the clock reading
  of line 56 plus that lifetime minus 60.
\<close>

definition declared_expiry :: "call_env \<Rightarrow> pyval \<Rightarrow> pyfloat option" where
  "declared_expiry env tok =
     (case reply env of
        Body (JObject kvs) \<Rightarrow>
          (if map_of kvs ''access_token'' = Some tok
           then (case map_of kvs ''expires_in'' of
                   None \<Rightarrow> None
                 | Some life \<Rightarrow>
                     (case py_number life of
                        Inl e \<Rightarrow> None
                      | Inr x \<Rightarrow>
                          Some (float_add (float_add (Finite (now_store env)) x) (Finite (- 60)))))
           else None)
      | _ \<Rightarrow> None)"

definition expiry_invariant :: "call_env list \<Rightarrow> CustomZoomTool \<Rightarrow> bool" where
  "expiry_invariant history self \<longleftrightarrow>
     access_token self = PNone \<or>
     (\<exists>env \<in> set history. declared_expiry env (access_token self) = Some (token_expires_at self))"

text \<open>
  A reply is complete when its body, if it is a dict with an \<open>access_token\<close>, also has
  an \<open>expires_in\<close> that is a number in the float range.
\<close>

definition complete_reply :: "reply \<Rightarrow> bool" where
  "complete_reply r =
     (case r of
        Body (JObject kvs) \<Rightarrow>
          (case map_of kvs ''access_token'' of
             None \<Rightarrow> True
           | Some tok \<Rightarrow>
               (case map_of kvs ''expires_in'' of
                  None \<Rightarrow> False
                | Some life \<Rightarrow> (case py_number life of Inl e \<Rightarrow> False | Inr x \<Rightarrow> True)))
      | _ \<Rightarrow> True)"

subsection \<open>Example inputs\<close>

text \<open>
  The module-level object of line 70 with all three variables set, a call during which
  the clock reads the same at both lines, a response with a status and a JSON object
  as its body, the token reply with status 200, and the object after a first exchange
  at time 1000 that returned the token \<open>T\<close> for 3600 seconds.
\<close>

definition fresh_tool :: CustomZoomTool where
  "fresh_tool = CustomZoomTool_init (Some ''acct'') (Some ''id'') (Some ''secret'')"

definition answer :: "real \<Rightarrow> http_outcome \<Rightarrow> call_env" where
  "answer t r = \<lparr>now_check = t, received = r, now_store = t\<rparr>"

definition json_reply :: "nat \<Rightarrow> (string \<times> pyval) list \<Rightarrow> http_outcome" where
  "json_reply status kvs = Response status [] (JSON (JObject kvs))"

definition token_reply :: "pyval \<Rightarrow> pyval \<Rightarrow> http_outcome" where
  "token_reply tok life = json_reply 200 [(''access_token'', tok), (''expires_in'', life)]"

definition warm_tool :: CustomZoomTool where
  "warm_tool = run fresh_tool [answer 1000 (token_reply (PStr ''T'') (PInt 3600))]"

section \<open>Properties\<close>

subsection \<open>Basic facts\<close>

lemmas unfold_call =
  get_access_token_def cache_hit_def store_token_def request_failed_def escapes_def
  set_parent_token_def token_request_def reply_def raises_for_status_def
  float_int_limit_def Let_def

lemmas unfold_inputs =
  fresh_tool_def warm_tool_def answer_def token_reply_def json_reply_def
  CustomZoomTool_init_def ZoomTool_init_def ZoomTool.defs CustomZoomTool.defs

lemma py_str_examples:
  "py_str (PInt 3600) = ''3600''"
  "py_str (PInt (- 42)) = ''-42''"
  "py_str (PInt 0) = ''0''"
  "py_str PNone = ''None''"
  "py_str (PStr ''T'') = ''T''"
  by (simp_all add: py_str_nat.simps digit_char_def)

lemma py_number_examples:
  "py_number (PInt 3600) = Inr (Finite 3600)"
  "py_number (PInt 10) = Inr (Finite 10)"
  "py_number (PInt (10 ^ 400)) = Inl OverflowError"
  "py_number (PStr ''3600'') = Inl TypeError"
  by (simp_all add: float_int_limit_def)

lemma CustomZoomTool_init_simps [simp]:
  "account_id (CustomZoomTool_init a c s) = a"
  "client_id (CustomZoomTool_init a c s) = c"
  "client_secret (CustomZoomTool_init a c s) = s"
  "ZoomTool__access_token (CustomZoomTool_init a c s) = None"
  "token_url (CustomZoomTool_init a c s) = ''https://zoom.us/oauth/token''"
  "access_token (CustomZoomTool_init a c s) = PNone"
  "token_expires_at (CustomZoomTool_init a c s) = Finite 0"
  by (simp_all add: CustomZoomTool_init_def ZoomTool_init_def ZoomTool.defs CustomZoomTool.defs)

lemma reply_answer [simp]:
  "reply (answer t (NoResponse e)) = TransportFailure e"
  "reply (answer t (Response status e body)) =
     (if 400 \<le> status \<and> status < 600 then HTTPFailure status e
      else (case body of NotJSON m \<Rightarrow> InvalidJSON m | JSON doc \<Rightarrow> Body doc))"
  by (simp_all add: reply_def answer_def raises_for_status_def)

lemma reply_token_reply [simp]:
  "reply (answer t (token_reply tok life)) =
     Body (JObject [(''access_token'', tok), (''expires_in'', life)])"
  by (simp add: token_reply_def json_reply_def)

lemma get_access_token_hit:
  "cache_hit self env \<Longrightarrow>
   get_access_token self env =
     \<lparr>ret = Inr (py_str (access_token self)), state = self, requests = [], logged = []\<rparr>"
  by (simp add: get_access_token_def)

lemma store_token_requests: "requests (store_token self sent doc now) = [sent]"
  by (simp add: store_token_def escapes_def Let_def split: sum.splits)

lemma get_access_token_miss:
  "\<not> cache_hit self env \<Longrightarrow> requests (get_access_token self env) = [token_request self]"
  by (simp add: get_access_token_def request_failed_def store_token_requests Let_def
      split: reply.splits)

lemma store_token_ok:
  assumes "map_of kvs ''access_token'' = Some tok"
    and "map_of kvs ''expires_in'' = Some life"
    and "py_number life = Inr x"
  shows "store_token self sent (JObject kvs) now =
     \<lparr>ret = Inr (py_str tok),
      state = set_parent_token
                (self\<lparr>access_token := tok,
                   token_expires_at := float_add (float_add (Finite now) x) (Finite (- 60))\<rparr>)
                (py_str tok),
      requests = [sent], logged = []\<rparr>"
  using assms by (simp add: store_token_def Let_def set_parent_token_def)

lemma get_access_token_stores:
  assumes "\<not> cache_hit self env"
    and "reply env = Body (JObject kvs)"
    and "map_of kvs ''access_token'' = Some tok"
    and "map_of kvs ''expires_in'' = Some life"
    and "py_number life = Inr x"
  shows "get_access_token self env =
     \<lparr>ret = Inr (py_str tok),
      state = set_parent_token
                (self\<lparr>access_token := tok,
                   token_expires_at :=
                     float_add (float_add (Finite (now_store env)) x) (Finite (- 60))\<rparr>)
                (py_str tok),
      requests = [token_request self], logged = []\<rparr>"
  using assms by (simp add: get_access_token_def Let_def store_token_ok)

text \<open>Line 54 stores the token before anything of lines 55 and 56 can raise.\<close>

lemma get_access_token_keeps_token:
  assumes "\<not> cache_hit self env"
    and "reply env = Body (JObject kvs)"
    and "map_of kvs ''access_token'' = Some tok"
  shows "access_token (state (get_access_token self env)) = tok"
  using assms
  by (simp add: get_access_token_def store_token_def escapes_def set_parent_token_def Let_def
      split: sum.splits option.splits)

lemma get_access_token_config:
  "token_url (state (get_access_token self env)) = token_url self \<and>
   account_id (state (get_access_token self env)) = account_id self \<and>
   client_id (state (get_access_token self env)) = client_id self \<and>
   client_secret (state (get_access_token self env)) = client_secret self"
  by (simp add: get_access_token_def request_failed_def store_token_def escapes_def
      set_parent_token_def Let_def split: reply.splits sum.splits option.splits)

lemma run_config:
  "token_url (run self envs) = token_url self \<and>
   account_id (run self envs) = account_id self \<and>
   client_id (run self envs) = client_id self \<and>
   client_secret (run self envs) = client_secret self"
  by (induction envs arbitrary: self) (simp_all add: get_access_token_config)

lemma warm_tool_eq:
  "warm_tool =
     \<lparr>account_id = Some ''acct'', client_id = Some ''id'', client_secret = Some ''secret'',
      ZoomTool__access_token = Some ''T'', token_url = ''https://zoom.us/oauth/token'',
      access_token = PStr ''T'', token_expires_at = Finite 4540\<rparr>"
  by (simp add: unfold_inputs unfold_call)

subsection \<open>The fast path\<close>

text \<open>
  C1 (amended): for every call where the cached token is truthy (for a string token:
  non-empty) and the clock reads strictly less than the stored expiry, the call returns
  the text of the cached token (a string token is returned unchanged), sends no request,
  logs nothing and leaves the whole object, so the cached value and its expiry, as it
  was.
\<close>

theorem cached_token_served:
  assumes "py_truthy (access_token self)"
    and "float_less (Finite (now_check env)) (token_expires_at self)"
  shows "ret (get_access_token self env) = Inr (py_str (access_token self)) \<and>
         (\<forall>t. access_token self = PStr t \<longrightarrow> ret (get_access_token self env) = Inr t) \<and>
         requests (get_access_token self env) = [] \<and>
         logged (get_access_token self env) = [] \<and>
         state (get_access_token self env) = self"
proof -
  from assms have "cache_hit self env" by (simp add: cache_hit_def)
  then show ?thesis by (auto simp: get_access_token_hit)
qed

theorem cached_token_served_witness:
  "py_truthy (access_token warm_tool) \<and>
   token_expires_at warm_tool = Finite 4540 \<and>
   float_less (Finite (now_check (answer 1001 (NoResponse ''unreachable''))))
     (token_expires_at warm_tool) \<and>
   ret (get_access_token warm_tool (answer 1001 (NoResponse ''unreachable''))) = Inr ''T'' \<and>
   requests (get_access_token warm_tool (answer 1001 (NoResponse ''unreachable''))) = [] \<and>
   state (get_access_token warm_tool (answer 1001 (NoResponse ''unreachable''))) = warm_tool"
proof -
  have a: "py_truthy (access_token warm_tool)"
    and b: "float_less (Finite (now_check (answer 1001 (NoResponse ''unreachable''))))
              (token_expires_at warm_tool)"
    and c: "access_token warm_tool = PStr ''T''"
    and d: "token_expires_at warm_tool = Finite 4540"
    by (simp_all add: warm_tool_eq answer_def)
  from cached_token_served [OF a b] a b c d show ?thesis by simp
qed

text \<open>
  C1 as stated fails when the cached token is the empty string: after an exchange at
  time 1000 that returned \<open>""\<close> for 3600 seconds, a token is cached (the attribute is
  not \<open>None\<close>) and a call at time 1001 is before the expiry 4540, yet the call posts
  a request and returns the new token \<open>U\<close>.
\<close>

theorem empty_cached_token_not_served:
  "access_token (run fresh_tool [answer 1000 (token_reply (PStr []) (PInt 3600))]) = PStr [] \<and>
   access_token (run fresh_tool [answer 1000 (token_reply (PStr []) (PInt 3600))]) \<noteq> PNone \<and>
   token_expires_at (run fresh_tool [answer 1000 (token_reply (PStr []) (PInt 3600))])
     = Finite 4540 \<and>
   float_less (Finite (now_check (answer 1001 (token_reply (PStr ''U'') (PInt 3600)))))
     (token_expires_at (run fresh_tool [answer 1000 (token_reply (PStr []) (PInt 3600))])) \<and>
   requests (get_access_token (run fresh_tool [answer 1000 (token_reply (PStr []) (PInt 3600))])
               (answer 1001 (token_reply (PStr ''U'') (PInt 3600)))) \<noteq> [] \<and>
   ret (get_access_token (run fresh_tool [answer 1000 (token_reply (PStr []) (PInt 3600))])
          (answer 1001 (token_reply (PStr ''U'') (PInt 3600)))) = Inr ''U'' \<and>
   access_token (state (get_access_token
       (run fresh_tool [answer 1000 (token_reply (PStr []) (PInt 3600))])
       (answer 1001 (token_reply (PStr ''U'') (PInt 3600))))) = PStr ''U''"
  by (simp add: unfold_inputs unfold_call)

subsection \<open>Failed exchanges\<close>

text \<open>
  C2 (amended): for every call whose token exchange fails, because \<open>requests.post\<close>
  raises a transport exception or the response has a status from 400 to 599 (401,
  say), for which \<open>raise_for_status\<close> raises, the call returns the empty string rather
  than raising, logs one error line carrying the text of the exception, and leaves the
  object, so any earlier cached token and expiry, untouched.
\<close>

theorem failed_exchange_is_atomic:
  assumes "\<not> cache_hit self env"
    and "received env = NoResponse e \<or>
         (received env = Response status e body \<and> 400 \<le> status \<and> status < 600)"
  shows "ret (get_access_token self env) = Inr [] \<and>
         logged (get_access_token self env) = [''Error fetching access token: '' @ e] \<and>
         state (get_access_token self env) = self"
  using assms
  by (auto simp: get_access_token_def request_failed_def reply_def raises_for_status_def)

theorem failed_exchange_is_atomic_witness:
  "\<not> cache_hit warm_tool (answer 5000 (Response 401 ''401 Client Error'' (NotJSON []))) \<and>
   ret (get_access_token warm_tool (answer 5000 (Response 401 ''401 Client Error'' (NotJSON []))))
     = Inr [] \<and>
   logged (get_access_token warm_tool (answer 5000 (Response 401 ''401 Client Error'' (NotJSON []))))
     = [''Error fetching access token: 401 Client Error''] \<and>
   access_token (state (get_access_token warm_tool
       (answer 5000 (Response 401 ''401 Client Error'' (NotJSON []))))) = PStr ''T'' \<and>
   token_expires_at (state (get_access_token warm_tool
       (answer 5000 (Response 401 ''401 Client Error'' (NotJSON []))))) = Finite 4540 \<and>
   ret (get_access_token fresh_tool (answer 1000 (NoResponse ''refused''))) = Inr [] \<and>
   state (get_access_token fresh_tool (answer 1000 (NoResponse ''refused''))) = fresh_tool"
proof -
  let ?denied = "answer 5000 (Response 401 ''401 Client Error'' (NotJSON []))"
  let ?refused = "answer 1000 (NoResponse ''refused'')"
  have a: "\<not> cache_hit warm_tool ?denied"
    by (simp add: cache_hit_def warm_tool_eq answer_def)
  have b: "received ?denied = NoResponse ''401 Client Error'' \<or>
           (received ?denied = Response 401 ''401 Client Error'' (NotJSON []) \<and>
            400 \<le> (401::nat) \<and> (401::nat) < 600)"
    by (simp add: answer_def)
  have c: "\<not> cache_hit fresh_tool ?refused"
    by (simp add: cache_hit_def fresh_tool_def)
  have d: "received ?refused = NoResponse ''refused'' \<or>
           (received ?refused = Response 0 ''refused'' (NotJSON []) \<and>
            400 \<le> (0::nat) \<and> (0::nat) < 600)"
    by (simp add: answer_def)
  from failed_exchange_is_atomic [OF a b] failed_exchange_is_atomic [OF c d] a
  show ?thesis by (simp add: warm_tool_eq)
qed

text \<open>
  C2 as stated fails for a response whose status is outside 200 to 299 and outside
  400 to 599: \<open>raise_for_status\<close> returns for it. The object holds the token \<open>T\<close>,
  expired at time 5000; the response has status 300 and a body with the token \<open>U\<close>.
  The call returns \<open>U\<close>, not the empty string, logs nothing, and overwrites the
  cached token and expiry.
\<close>

theorem status_300_is_not_a_failure:
  "\<not> cache_hit warm_tool
       (answer 5000 (json_reply 300 [(''access_token'', PStr ''U''), (''expires_in'', PInt 3600)])) \<and>
   ret (get_access_token warm_tool
       (answer 5000 (json_reply 300 [(''access_token'', PStr ''U''), (''expires_in'', PInt 3600)])))
     = Inr ''U'' \<and>
   logged (get_access_token warm_tool
       (answer 5000 (json_reply 300 [(''access_token'', PStr ''U''), (''expires_in'', PInt 3600)])))
     = [] \<and>
   access_token warm_tool = PStr ''T'' \<and>
   token_expires_at warm_tool = Finite 4540 \<and>
   access_token (state (get_access_token warm_tool
       (answer 5000 (json_reply 300 [(''access_token'', PStr ''U''), (''expires_in'', PInt 3600)]))))
     = PStr ''U'' \<and>
   token_expires_at (state (get_access_token warm_tool
       (answer 5000 (json_reply 300 [(''access_token'', PStr ''U''), (''expires_in'', PInt 3600)]))))
     = Finite 8540"
  by (simp add: warm_tool_eq answer_def json_reply_def unfold_call)

subsection \<open>Successful exchanges\<close>

lemma outcomes_all_hits:
  "\<forall>e \<in> set envs. cache_hit self e \<Longrightarrow>
   (\<forall>r \<in> set (outcomes self envs).
      ret r = Inr (py_str (access_token self)) \<and> requests r = [] \<and> state r = self) \<and>
   run self envs = self"
  by (induction envs) (simp_all add: get_access_token_hit)

text \<open>
  C3: let an exchange succeed with a body whose \<open>access_token\<close> is \<open>"T"\<close> and whose
  \<open>expires_in\<close> is 3600, the clock reading \<open>t0\<close> when the expiry is computed. Then
  every later call made at a time strictly less than \<open>t0 + 3600 - 60\<close> returns
  \<open>"T"\<close> from the cache without a request and leaves the object as it is, however
  many such calls are made; and a call at or after \<open>t0 + 3600 - 60\<close> takes the refresh
  path and posts the request of lines 44 to 50.
\<close>

theorem token_T_served_until_margin:
  assumes "\<not> cache_hit self env"
    and "reply env = Body (JObject kvs)"
    and "map_of kvs ''access_token'' = Some (PStr ''T'')"
    and "map_of kvs ''expires_in'' = Some (PInt 3600)"
    and "cached = state (get_access_token self env)"
    and "t0 = now_store env"
  shows "((\<forall>e \<in> set envs. now_check e < t0 + 3600 - 60) \<longrightarrow>
            (\<forall>r \<in> set (outcomes cached envs).
               ret r = Inr ''T'' \<and> requests r = [] \<and> state r = cached) \<and>
            run cached envs = cached) \<and>
         (t0 + 3600 - 60 \<le> now_check env' \<longrightarrow>
            \<not> cache_hit cached env' \<and>
            requests (get_access_token cached env') = [token_request cached] \<and>
            requests (get_access_token cached env') =
              [\<lparr>http_method = ''POST'',
                url = token_url self,
                headers = [(''Content-Type'', ''application/x-www-form-urlencoded'')],
                form_data = [(''grant_type'', Some ''account_credentials''),
                             (''account_id'', account_id self)],
                auth = (client_id self, client_secret self)\<rparr>])"
proof -
  have n: "py_number (PInt 3600) = Inr (Finite 3600)"
    by (simp add: float_int_limit_def)
  have tok: "access_token cached = PStr ''T''"
    and exp: "token_expires_at cached = Finite (t0 + 3600 - 60)"
    using assms(5,6)
    by (simp_all add: get_access_token_stores [OF assms(1-4) n] set_parent_token_def)
  have early: "cache_hit cached e" if "now_check e < t0 + 3600 - 60" for e
    using that tok exp by (simp add: cache_hit_def)
  have late: "\<not> cache_hit cached env'" if "t0 + 3600 - 60 \<le> now_check env'"
    using that exp by (simp add: cache_hit_def)
  show ?thesis
  proof (intro conjI impI)
    assume a: "\<forall>e \<in> set envs. now_check e < t0 + 3600 - 60"
    then have "\<forall>e \<in> set envs. cache_hit cached e" using early by blast
    from outcomes_all_hits [OF this] tok
    show "\<forall>r \<in> set (outcomes cached envs).
            ret r = Inr ''T'' \<and> requests r = [] \<and> state r = cached"
      and "run cached envs = cached"
      by simp_all
  next
    assume b: "t0 + 3600 - 60 \<le> now_check env'"
    then show "\<not> cache_hit cached env'" by (rule late)
    from late [OF b]
    show sent: "requests (get_access_token cached env') = [token_request cached]"
      by (rule get_access_token_miss)
    show "requests (get_access_token cached env') =
            [\<lparr>http_method = ''POST'',
              url = token_url self,
              headers = [(''Content-Type'', ''application/x-www-form-urlencoded'')],
              form_data = [(''grant_type'', Some ''account_credentials''),
                           (''account_id'', account_id self)],
              auth = (client_id self, client_secret self)\<rparr>]"
      using sent assms(5) by (simp add: token_request_def get_access_token_config)
  qed
qed

theorem token_T_served_until_margin_witness:
  "map ret (outcomes warm_tool [answer 1001 (Response 401 ''denied'' (NotJSON [])),
                                answer 4539 (Response 401 ''denied'' (NotJSON []))])
     = [Inr ''T'', Inr ''T''] \<and>
   map requests (outcomes warm_tool [answer 1001 (Response 401 ''denied'' (NotJSON [])),
                                     answer 4539 (Response 401 ''denied'' (NotJSON []))])
     = [[], []] \<and>
   run warm_tool [answer 1001 (Response 401 ''denied'' (NotJSON [])),
                  answer 4539 (Response 401 ''denied'' (NotJSON []))] = warm_tool \<and>
   \<not> cache_hit warm_tool (answer 4540 (Response 401 ''denied'' (NotJSON []))) \<and>
   requests (get_access_token warm_tool (answer 4540 (Response 401 ''denied'' (NotJSON []))))
     = [token_request warm_tool]"
proof -
  let ?first = "answer 1000 (token_reply (PStr ''T'') (PInt 3600))"
  let ?kvs = "[(''access_token'', PStr ''T''), (''expires_in'', PInt 3600)]"
  let ?envs = "[answer 1001 (Response 401 ''denied'' (NotJSON [])),
                answer 4539 (Response 401 ''denied'' (NotJSON []))]"
  have h1: "\<not> cache_hit fresh_tool ?first"
    by (simp add: cache_hit_def fresh_tool_def)
  have h2: "reply ?first = Body (JObject ?kvs)"
    by simp
  have h3: "map_of ?kvs ''access_token'' = Some (PStr ''T'')"
    and h4: "map_of ?kvs ''expires_in'' = Some (PInt 3600)"
    by simp_all
  have h5: "warm_tool = state (get_access_token fresh_tool ?first)"
    by (simp add: warm_tool_def)
  have h6: "1000 = now_store ?first"
    by (simp add: answer_def)
  have early: "\<forall>e \<in> set ?envs. now_check e < 1000 + 3600 - 60"
    by (simp add: answer_def)
  have late: "(1000::real) + 3600 - 60
                \<le> now_check (answer 4540 (Response 401 ''denied'' (NotJSON [])))"
    by (simp add: answer_def)
  note t = token_T_served_until_margin [OF h1 h2 h3 h4 h5 h6, of ?envs
      "answer 4540 (Response 401 ''denied'' (NotJSON []))"]
  from t early late show ?thesis by auto
qed

text \<open>
  C4 (amended): for every call where the exchange succeeds (the body is a dict with an
  \<open>access_token\<close> and an \<open>expires_in\<close> that is a number in the float range), the
  function stores the \<open>access_token\<close> of the response as the cached value, sets the
  expiry to the clock reading of line 56 plus \<open>expires_in\<close> minus 60, returns the text
  of the token, and writes that text into the private attribute of the parent class
  when it is non-empty; an empty token text leaves that attribute as it was.
\<close>

theorem successful_exchange_stores:
  assumes "\<not> cache_hit self env"
    and "reply env = Body (JObject kvs)"
    and "map_of kvs ''access_token'' = Some tok"
    and "map_of kvs ''expires_in'' = Some life"
    and "py_number life = Inr x"
  shows "access_token (state (get_access_token self env)) = tok \<and>
         token_expires_at (state (get_access_token self env)) =
           float_add (float_add (Finite (now_store env)) x) (Finite (- 60)) \<and>
         (\<forall>n. x = Finite n \<longrightarrow>
            token_expires_at (state (get_access_token self env)) =
              Finite (now_store env + n - 60)) \<and>
         ZoomTool__access_token (state (get_access_token self env)) =
           (if py_str tok = [] then ZoomTool__access_token self else Some (py_str tok)) \<and>
         ret (get_access_token self env) = Inr (py_str tok)"
  by (simp add: get_access_token_stores [OF assms] set_parent_token_def)

theorem successful_exchange_stores_witness:
  "access_token (state (get_access_token fresh_tool
      (answer 1000 (token_reply (PStr ''T'') (PInt 3600))))) = PStr ''T'' \<and>
   token_expires_at (state (get_access_token fresh_tool
      (answer 1000 (token_reply (PStr ''T'') (PInt 3600))))) = Finite 4540 \<and>
   ZoomTool__access_token (state (get_access_token fresh_tool
      (answer 1000 (token_reply (PStr ''T'') (PInt 3600))))) = Some ''T'' \<and>
   ret (get_access_token fresh_tool
      (answer 1000 (token_reply (PStr ''T'') (PInt 3600)))) = Inr ''T''"
proof -
  let ?first = "answer 1000 (token_reply (PStr ''T'') (PInt 3600))"
  let ?kvs = "[(''access_token'', PStr ''T''), (''expires_in'', PInt 3600)]"
  have h1: "\<not> cache_hit fresh_tool ?first"
    by (simp add: cache_hit_def fresh_tool_def)
  have h2: "reply ?first = Body (JObject ?kvs)"
    by simp
  have h3: "map_of ?kvs ''access_token'' = Some (PStr ''T'')"
    and h4: "map_of ?kvs ''expires_in'' = Some (PInt 3600)"
    and h5: "py_number (PInt 3600) = Inr (Finite 3600)"
    by (simp_all add: float_int_limit_def)
  from successful_exchange_stores [OF h1 h2 h3 h4 h5] show ?thesis
    by (simp add: answer_def)
qed

text \<open>
  C4 as stated fails when the response carries the empty string as its token. The
  object holds the token \<open>T\<close>, expired at time 5000, and the private attribute of the
  parent class holds \<open>T\<close> too. The exchange succeeds: the empty token is cached with
  the expiry 8540 and returned; but the private attribute is not written and still
  holds \<open>T\<close>.
\<close>

theorem empty_token_not_propagated:
  "\<not> cache_hit warm_tool (answer 5000 (token_reply (PStr []) (PInt 3600))) \<and>
   ret (get_access_token warm_tool (answer 5000 (token_reply (PStr []) (PInt 3600)))) = Inr [] \<and>
   access_token (state (get_access_token warm_tool
      (answer 5000 (token_reply (PStr []) (PInt 3600))))) = PStr [] \<and>
   token_expires_at (state (get_access_token warm_tool
      (answer 5000 (token_reply (PStr []) (PInt 3600))))) = Finite 8540 \<and>
   ZoomTool__access_token (state (get_access_token warm_tool
      (answer 5000 (token_reply (PStr []) (PInt 3600))))) = Some ''T'' \<and>
   ZoomTool__access_token (state (get_access_token warm_tool
      (answer 5000 (token_reply (PStr []) (PInt 3600))))) \<noteq> Some []"
  by (simp add: warm_tool_eq answer_def token_reply_def json_reply_def unfold_call)

text \<open>
  An exchange whose \<open>expires_in\<close> is an int beyond the float range does not succeed:
  line 54 stores the token, the sum of line 56 raises OverflowError, which the handler
  does not catch, and neither the expiry nor the private attribute of the parent class
  is written.
\<close>

lemma out_of_range_lifetime_escapes:
  "ret (get_access_token fresh_tool (answer 1000 (token_reply (PStr ''T'') (PInt (10 ^ 400)))))
     = Inl OverflowError \<and>
   access_token (state (get_access_token fresh_tool
      (answer 1000 (token_reply (PStr ''T'') (PInt (10 ^ 400)))))) = PStr ''T'' \<and>
   token_expires_at (state (get_access_token fresh_tool
      (answer 1000 (token_reply (PStr ''T'') (PInt (10 ^ 400)))))) = Finite 0 \<and>
   ZoomTool__access_token (state (get_access_token fresh_tool
      (answer 1000 (token_reply (PStr ''T'') (PInt (10 ^ 400)))))) = None"
  by (simp add: unfold_inputs unfold_call)

text \<open>
  A lifetime that is an infinity or NaN is stored as the sum gives it: with
  \<open>Infinity\<close> the token never expires.
\<close>

lemma infinite_lifetime_never_expires:
  "token_expires_at (state (get_access_token fresh_tool
      (answer 1000 (token_reply (PStr ''T'') (PFloat PosInf ''inf''))))) = PosInf \<and>
   cache_hit (state (get_access_token fresh_tool
      (answer 1000 (token_reply (PStr ''T'') (PFloat PosInf ''inf''))))) env"
  by (simp add: unfold_inputs unfold_call)

subsection \<open>The refresh path\<close>

text \<open>
  C5: for every call where no token is cached, or the expiry of the cached token has
  passed (the clock does not read less than the stored expiry), exactly one request
  is issued, and it is the request to the token endpoint: a POST to the token URL of
  the object, which on an object built by the constructor is
  \<open>https://zoom.us/oauth/token\<close>, with the header, form fields and credentials of
  lines 44 to 50.
\<close>

theorem refresh_sends_one_request:
  assumes "access_token self = PNone \<or>
           \<not> float_less (Finite (now_check env)) (token_expires_at self)"
  shows "requests (get_access_token self env) =
           [\<lparr>http_method = ''POST'',
             url = token_url self,
             headers = [(''Content-Type'', ''application/x-www-form-urlencoded'')],
             form_data = [(''grant_type'', Some ''account_credentials''),
                          (''account_id'', account_id self)],
             auth = (client_id self, client_secret self)\<rparr>] \<and>
         length (requests (get_access_token self env)) = 1 \<and>
         (self = run (CustomZoomTool_init acct cid secret) envs \<longrightarrow>
            map url (requests (get_access_token self env)) = [''https://zoom.us/oauth/token''])"
proof -
  from assms have "\<not> cache_hit self env" by (auto simp: cache_hit_def)
  then have sent: "requests (get_access_token self env) = [token_request self]"
    by (rule get_access_token_miss)
  have built: "token_url self = ''https://zoom.us/oauth/token''"
    if "self = run (CustomZoomTool_init acct cid secret) envs"
    using that by (simp add: run_config)
  from sent built show ?thesis
    by (auto simp: token_request_def)
qed

theorem refresh_sends_one_request_witness:
  "access_token fresh_tool = PNone \<and>
   requests (get_access_token fresh_tool (answer 1000 (NoResponse ''refused''))) =
     [\<lparr>http_method = ''POST'',
       url = ''https://zoom.us/oauth/token'',
       headers = [(''Content-Type'', ''application/x-www-form-urlencoded'')],
       form_data = [(''grant_type'', Some ''account_credentials''),
                    (''account_id'', Some ''acct'')],
       auth = (Some ''id'', Some ''secret'')\<rparr>] \<and>
   token_expires_at warm_tool = Finite 4540 \<and>
   \<not> float_less (Finite (now_check (answer 4540 (token_reply (PStr ''U'') (PInt 3600)))))
       (token_expires_at warm_tool) \<and>
   length (requests (get_access_token warm_tool
                       (answer 4540 (token_reply (PStr ''U'') (PInt 3600))))) = 1 \<and>
   map url (requests (get_access_token warm_tool
                       (answer 4540 (token_reply (PStr ''U'') (PInt 3600)))))
     = [''https://zoom.us/oauth/token'']"
proof -
  have a: "access_token fresh_tool = PNone"
    by (simp add: fresh_tool_def)
  have b: "\<not> float_less (Finite (now_check (answer 4540 (token_reply (PStr ''U'') (PInt 3600)))))
               (token_expires_at warm_tool)"
    and c: "token_expires_at warm_tool = Finite 4540"
    by (simp_all add: warm_tool_eq answer_def)
  have d: "warm_tool = run (CustomZoomTool_init (Some ''acct'') (Some ''id'') (Some ''secret''))
                         [answer 1000 (token_reply (PStr ''T'') (PInt 3600))]"
    by (simp add: warm_tool_def fresh_tool_def)
  note first = refresh_sends_one_request [OF disjI1 [OF a],
      of "answer 1000 (NoResponse ''refused'')" None None None "[]"]
  note second = refresh_sends_one_request [OF disjI2 [OF b],
      of "Some ''acct''" "Some ''id''" "Some ''secret''"
         "[answer 1000 (token_reply (PStr ''T'') (PInt 3600))]"]
  from first have r1:
    "requests (get_access_token fresh_tool (answer 1000 (NoResponse ''refused''))) =
       [\<lparr>http_method = ''POST'',
         url = ''https://zoom.us/oauth/token'',
         headers = [(''Content-Type'', ''application/x-www-form-urlencoded'')],
         form_data = [(''grant_type'', Some ''account_credentials''),
                      (''account_id'', Some ''acct'')],
         auth = (Some ''id'', Some ''secret'')\<rparr>]"
    by (simp add: fresh_tool_def)
  from second have r2:
    "length (requests (get_access_token warm_tool
                         (answer 4540 (token_reply (PStr ''U'') (PInt 3600))))) = 1"
    by blast
  from second d have r3:
    "map url (requests (get_access_token warm_tool
                          (answer 4540 (token_reply (PStr ''U'') (PInt 3600)))))
       = [''https://zoom.us/oauth/token'']"
    by blast
  from a b c r1 r2 r3 show ?thesis by blast
qed

subsection \<open>The expiry invariant\<close>

lemma expiry_invariant_init: "expiry_invariant [] (CustomZoomTool_init acct cid secret)"
  by (simp add: expiry_invariant_def)

lemma expiry_invariant_mono:
  "expiry_invariant history self \<Longrightarrow> expiry_invariant (history @ later) self"
  by (auto simp: expiry_invariant_def)

lemma expiry_invariant_step:
  assumes inv: "expiry_invariant history self"
    and ok: "complete_reply (reply env)"
  shows "expiry_invariant (history @ [env]) (state (get_access_token self env))"
proof (cases "cache_hit self env")
  case True
  then show ?thesis
    using inv by (simp add: get_access_token_hit expiry_invariant_mono)
next
  case miss: False
  show ?thesis
  proof (cases "reply env")
    case (Body doc)
    show ?thesis
    proof (cases doc)
      case JOther
      with miss Body inv show ?thesis
        by (simp add: get_access_token_def store_token_def escapes_def Let_def
            expiry_invariant_mono)
    next
      case (JObject kvs)
      show ?thesis
      proof (cases "map_of kvs ''access_token''")
        case None
        with miss Body JObject inv show ?thesis
          by (simp add: get_access_token_def store_token_def escapes_def Let_def
              expiry_invariant_mono)
      next
        case (Some tok)
        with ok Body JObject obtain life x
          where life: "map_of kvs ''expires_in'' = Some life"
            and x: "py_number life = Inr x"
          by (auto simp: complete_reply_def split: option.splits sum.splits)
        from Body JObject have r: "reply env = Body (JObject kvs)" by simp
        have "declared_expiry env tok =
                Some (float_add (float_add (Finite (now_store env)) x) (Finite (- 60)))"
          using r Some life x by (simp add: declared_expiry_def)
        then show ?thesis
          by (simp add: get_access_token_stores [OF miss r Some life x]
              set_parent_token_def expiry_invariant_def)
      qed
    qed
  qed (use miss inv in \<open>simp_all add: get_access_token_def request_failed_def Let_def
        expiry_invariant_mono\<close>)
qed

lemma expiry_invariant_run_from:
  "expiry_invariant history self \<Longrightarrow> \<forall>env \<in> set envs. complete_reply (reply env) \<Longrightarrow>
   expiry_invariant (history @ envs) (run self envs)"
proof (induction envs arbitrary: history self)
  case Nil
  then show ?case by simp
next
  case (Cons env envs)
  from Cons.prems have "expiry_invariant (history @ [env]) (state (get_access_token self env))"
    by (simp add: expiry_invariant_step)
  from Cons.IH [OF this] Cons.prems(2) show ?case by simp
qed

text \<open>
  By construction and through every run of calls whose replies are complete, the
  invariant holds.
\<close>

lemma expiry_invariant_run:
  "\<forall>env \<in> set envs. complete_reply (reply env) \<Longrightarrow>
   expiry_invariant envs (run (CustomZoomTool_init acct cid secret) envs)"
  using expiry_invariant_run_from [OF expiry_invariant_init] by fastforce

text \<open>
  C6 does not hold of the code: a reply whose body has an \<open>access_token\<close> and no
  \<open>expires_in\<close> makes line 55 raise KeyError after line 54 has stored the token. The
  exception is not a \<open>RequestException\<close>, so it leaves the method, and the object keeps
  the new token \<open>T\<close> with the expiry 0 of the constructor: a cached value is present
  whose expiry no call has declared.
\<close>

theorem missing_lifetime_breaks_expiry_invariant:
  "ret (get_access_token fresh_tool
          (answer 1000 (json_reply 200 [(''access_token'', PStr ''T'')])))
     = Inl (KeyError ''expires_in'') \<and>
   access_token (run fresh_tool [answer 1000 (json_reply 200 [(''access_token'', PStr ''T'')])])
     = PStr ''T'' \<and>
   token_expires_at (run fresh_tool [answer 1000 (json_reply 200 [(''access_token'', PStr ''T'')])])
     = Finite 0 \<and>
   \<not> expiry_invariant [answer 1000 (json_reply 200 [(''access_token'', PStr ''T'')])]
       (run fresh_tool [answer 1000 (json_reply 200 [(''access_token'', PStr ''T'')])])"
  by (simp add: unfold_inputs unfold_call expiry_invariant_def declared_expiry_def)

text \<open>
  The half-updated pair can be served. After an exchange at time 1000 that cached the
  empty token for 3600 seconds, a reply at time 1001 with the token \<open>T2\<close> and no
  \<open>expires_in\<close> leaves \<open>T2\<close> cached with the expiry 4540 of the empty token, and a
  call at time 2000 returns \<open>T2\<close> from the cache.
\<close>

lemma undeclared_expiry_served:
  "token_expires_at (run fresh_tool
      [answer 1000 (token_reply (PStr []) (PInt 3600)),
       answer 1001 (json_reply 200 [(''access_token'', PStr ''T2'')])]) = Finite 4540 \<and>
   ret (get_access_token
      (run fresh_tool
         [answer 1000 (token_reply (PStr []) (PInt 3600)),
          answer 1001 (json_reply 200 [(''access_token'', PStr ''T2'')])])
      (answer 2000 (NoResponse ''unreachable''))) = Inr ''T2'' \<and>
   requests (get_access_token
      (run fresh_tool
         [answer 1000 (token_reply (PStr []) (PInt 3600)),
          answer 1001 (json_reply 200 [(''access_token'', PStr ''T2'')])])
      (answer 2000 (NoResponse ''unreachable''))) = []"
  by (simp add: unfold_inputs unfold_call)

subsection \<open>The request\<close>

text \<open>
  C7: on an object built by the constructor and used through any number of calls, every
  call that takes the refresh path issues one POST to
  \<open>https://zoom.us/oauth/token\<close>, with the header \<open>Content-Type:
  application/x-www-form-urlencoded\<close>, with the client id and the client secret as
  the user name and password of HTTP Basic authentication, and with the form fields
  \<open>grant_type=account_credentials\<close> and \<open>account_id\<close>, the configured account id.
\<close>

theorem refresh_request_shape:
  assumes "self = run (CustomZoomTool_init acct cid secret) envs"
    and "\<not> cache_hit self env"
  shows "requests (get_access_token self env) =
     [\<lparr>http_method = ''POST'',
       url = ''https://zoom.us/oauth/token'',
       headers = [(''Content-Type'', ''application/x-www-form-urlencoded'')],
       form_data = [(''grant_type'', Some ''account_credentials''), (''account_id'', acct)],
       auth = (cid, secret)\<rparr>]"
  using assms by (simp add: get_access_token_miss token_request_def run_config)

theorem refresh_request_shape_witness:
  "\<not> cache_hit warm_tool (answer 4540 (NoResponse ''refused'')) \<and>
   requests (get_access_token warm_tool (answer 4540 (NoResponse ''refused''))) =
     [\<lparr>http_method = ''POST'',
       url = ''https://zoom.us/oauth/token'',
       headers = [(''Content-Type'', ''application/x-www-form-urlencoded'')],
       form_data = [(''grant_type'', Some ''account_credentials''),
                    (''account_id'', Some ''acct'')],
       auth = (Some ''id'', Some ''secret'')\<rparr>]"
proof -
  have a: "warm_tool = run (CustomZoomTool_init (Some ''acct'') (Some ''id'') (Some ''secret''))
                         [answer 1000 (token_reply (PStr ''T'') (PInt 3600))]"
    by (simp add: warm_tool_def fresh_tool_def)
  have b: "\<not> cache_hit warm_tool (answer 4540 (NoResponse ''refused''))"
    by (simp add: cache_hit_def warm_tool_eq answer_def)
  from refresh_request_shape [OF a b] b show ?thesis by simp
qed

subsection \<open>A lifetime shorter than the margin\<close>

text \<open>
  C8: if a successful exchange, the clock reading \<open>t0\<close> when the expiry is computed,
  returns \<open>expires_in = 10\<close>, the stored expiry \<open>t0 + 10 - 60\<close> is already before
  \<open>t0\<close>; so the next call, made when the clock reads \<open>t0\<close> or later, is not served
  from the cache and posts a second request to the token endpoint: like the first it
  is the POST of lines 44 to 50 to the token URL of the object, which on an object
  built by the constructor is \<open>https://zoom.us/oauth/token\<close>.
\<close>

theorem short_lifetime_refetched:
  assumes "\<not> cache_hit self env"
    and "reply env = Body (JObject kvs)"
    and "map_of kvs ''access_token'' = Some tok"
    and "map_of kvs ''expires_in'' = Some (PInt 10)"
    and "now_store env \<le> now_check env'"
  shows "token_expires_at (state (get_access_token self env)) = Finite (now_store env + 10 - 60) \<and>
         float_less (token_expires_at (state (get_access_token self env)))
           (Finite (now_store env)) \<and>
         \<not> cache_hit (state (get_access_token self env)) env' \<and>
         requests (get_access_token (state (get_access_token self env)) env') =
           [\<lparr>http_method = ''POST'',
             url = token_url self,
             headers = [(''Content-Type'', ''application/x-www-form-urlencoded'')],
             form_data = [(''grant_type'', Some ''account_credentials''),
                          (''account_id'', account_id self)],
             auth = (client_id self, client_secret self)\<rparr>] \<and>
         concat (map requests (outcomes self [env, env'])) =
           requests (get_access_token self env) @
           requests (get_access_token (state (get_access_token self env)) env') \<and>
         requests (get_access_token self env) =
           requests (get_access_token (state (get_access_token self env)) env') \<and>
         length (concat (map requests (outcomes self [env, env']))) = 2 \<and>
         (self = run (CustomZoomTool_init acct cid secret) envs \<longrightarrow>
            map url (concat (map requests (outcomes self [env, env']))) =
              [''https://zoom.us/oauth/token'', ''https://zoom.us/oauth/token''])"
proof -
  let ?next = "state (get_access_token self env)"
  have n: "py_number (PInt 10) = Inr (Finite 10)"
    by (simp add: float_int_limit_def)
  have exp: "token_expires_at ?next = Finite (now_store env + 10 - 60)"
    by (simp add: get_access_token_stores [OF assms(1-4) n] set_parent_token_def)
  with assms(5) have miss: "\<not> cache_hit ?next env'"
    by (simp add: cache_hit_def)
  have first: "requests (get_access_token self env) = [token_request self]"
    using assms(1) by (rule get_access_token_miss)
  have same: "token_request ?next = token_request self"
    by (simp add: token_request_def get_access_token_config)
  have second: "requests (get_access_token ?next env') = [token_request self]"
    using get_access_token_miss [OF miss] same by simp
  have built: "token_url self = ''https://zoom.us/oauth/token''"
    if "self = run (CustomZoomTool_init acct cid secret) envs"
    using that by (simp add: run_config)
  from exp miss first second built show ?thesis
    by (auto simp: token_request_def)
qed

theorem short_lifetime_refetched_witness:
  "token_expires_at (state (get_access_token fresh_tool
      (answer 1000 (token_reply (PStr ''abc'') (PInt 10))))) = Finite 950 \<and>
   \<not> cache_hit (state (get_access_token fresh_tool
      (answer 1000 (token_reply (PStr ''abc'') (PInt 10)))))
      (answer 1000 (token_reply (PStr ''abc'') (PInt 10))) \<and>
   length (concat (map requests (outcomes fresh_tool
      [answer 1000 (token_reply (PStr ''abc'') (PInt 10)),
       answer 1000 (token_reply (PStr ''abc'') (PInt 10))]))) = 2 \<and>
   map url (concat (map requests (outcomes fresh_tool
      [answer 1000 (token_reply (PStr ''abc'') (PInt 10)),
       answer 1000 (token_reply (PStr ''abc'') (PInt 10))])))
     = [''https://zoom.us/oauth/token'', ''https://zoom.us/oauth/token'']"
proof -
  let ?call = "answer 1000 (token_reply (PStr ''abc'') (PInt 10))"
  let ?kvs = "[(''access_token'', PStr ''abc''), (''expires_in'', PInt 10)]"
  have h1: "\<not> cache_hit fresh_tool ?call"
    by (simp add: cache_hit_def fresh_tool_def)
  have h2: "reply ?call = Body (JObject ?kvs)"
    by simp
  have h3: "map_of ?kvs ''access_token'' = Some (PStr ''abc'')"
    and h4: "map_of ?kvs ''expires_in'' = Some (PInt 10)"
    by simp_all
  have h5: "now_store ?call \<le> now_check ?call"
    by (simp add: answer_def)
  have built: "fresh_tool = run (CustomZoomTool_init (Some ''acct'') (Some ''id'') (Some ''secret'')) []"
    by (simp add: fresh_tool_def)
  note t = short_lifetime_refetched [OF h1 h2 h3 h4 h5,
      of "Some ''acct''" "Some ''id''" "Some ''secret''" "[]"]
  have e: "now_store ?call = 1000"
    by (simp add: answer_def)
  from t have r1: "token_expires_at (state (get_access_token fresh_tool ?call))
                     = Finite (now_store ?call + 10 - 60)"
    and r2: "\<not> cache_hit (state (get_access_token fresh_tool ?call)) ?call"
    and r3: "length (concat (map requests (outcomes fresh_tool [?call, ?call]))) = 2"
    by blast+
  from t built have r4: "map url (concat (map requests (outcomes fresh_tool [?call, ?call])))
      = [''https://zoom.us/oauth/token'', ''https://zoom.us/oauth/token'']"
    by blast
  from r1 e have r1': "token_expires_at (state (get_access_token fresh_tool ?call)) = Finite 950"
    by simp
  from r1' r2 r3 r4 show ?thesis by blast
qed

subsection \<open>The guard of the parent write\<close>

text \<open>
  C9: a call of \<open>_set_parent_token\<close> with the empty string leaves the object, and so the
  private attribute \<open>_ZoomTool__access_token\<close>, as it was; whenever the call changes
  that attribute, the token argument is non-empty and is the new value.
\<close>

theorem set_parent_token_only_nonempty:
  "set_parent_token self [] = self \<and>
   (ZoomTool__access_token (set_parent_token self t) \<noteq> ZoomTool__access_token self
      \<longrightarrow> t \<noteq> [] \<and> ZoomTool__access_token (set_parent_token self t) = Some t)"
  by (simp add: set_parent_token_def)

theorem set_parent_token_only_nonempty_witness:
  "set_parent_token warm_tool [] = warm_tool \<and>
   ZoomTool__access_token (set_parent_token warm_tool ''U'') \<noteq> ZoomTool__access_token warm_tool \<and>
   ZoomTool__access_token (set_parent_token warm_tool ''U'') = Some ''U''"
proof -
  have a: "ZoomTool__access_token (set_parent_token warm_tool ''U'')
             \<noteq> ZoomTool__access_token warm_tool"
    by (simp add: set_parent_token_def warm_tool_eq)
  from set_parent_token_only_nonempty [of warm_tool "''U''"] a show ?thesis by simp
qed

subsection \<open>The empty token\<close>

text \<open>
  C10: if an exchange stores the empty string as the cached token (a successful one,
  or one that raises at line 55 or 56 after line 54 has stored it), the fast path
  does not serve it: whatever the clock reads at a later call, also a time strictly
  before the stored expiry, the test of line 41 fails on the empty token and the call
  posts the request of lines 44 to 50 for a fresh token.
\<close>

theorem empty_token_never_served:
  assumes "\<not> cache_hit self env"
    and "reply env = Body (JObject kvs)"
    and "map_of kvs ''access_token'' = Some (PStr [])"
  shows "access_token (state (get_access_token self env)) = PStr [] \<and>
         \<not> cache_hit (state (get_access_token self env)) env' \<and>
         requests (get_access_token (state (get_access_token self env)) env') =
           [token_request (state (get_access_token self env))] \<and>
         requests (get_access_token (state (get_access_token self env)) env') =
           [\<lparr>http_method = ''POST'',
             url = token_url self,
             headers = [(''Content-Type'', ''application/x-www-form-urlencoded'')],
             form_data = [(''grant_type'', Some ''account_credentials''),
                          (''account_id'', account_id self)],
             auth = (client_id self, client_secret self)\<rparr>]"
proof -
  have tok: "access_token (state (get_access_token self env)) = PStr []"
    using assms by (rule get_access_token_keeps_token)
  then have miss: "\<not> cache_hit (state (get_access_token self env)) env'"
    by (simp add: cache_hit_def)
  from tok miss show ?thesis
    by (simp add: get_access_token_miss token_request_def get_access_token_config)
qed

theorem empty_token_never_served_witness:
  "float_less (Finite (now_check (answer 1001 (token_reply (PStr ''U'') (PInt 3600)))))
     (token_expires_at (state (get_access_token fresh_tool
         (answer 1000 (token_reply (PStr []) (PInt 3600)))))) \<and>
   access_token (state (get_access_token fresh_tool
         (answer 1000 (token_reply (PStr []) (PInt 3600))))) = PStr [] \<and>
   length (requests (get_access_token
      (state (get_access_token fresh_tool (answer 1000 (token_reply (PStr []) (PInt 3600)))))
      (answer 1001 (token_reply (PStr ''U'') (PInt 3600))))) = 1 \<and>
   ret (get_access_token
      (state (get_access_token fresh_tool (answer 1000 (token_reply (PStr []) (PInt 3600)))))
      (answer 1001 (token_reply (PStr ''U'') (PInt 3600)))) = Inr ''U''"
proof -
  let ?first = "answer 1000 (token_reply (PStr []) (PInt 3600))"
  let ?kvs = "[(''access_token'', PStr []), (''expires_in'', PInt 3600)]"
  have h1: "\<not> cache_hit fresh_tool ?first"
    by (simp add: cache_hit_def fresh_tool_def)
  have h2: "reply ?first = Body (JObject ?kvs)"
    by simp
  have h3: "map_of ?kvs ''access_token'' = Some (PStr [])"
    by simp
  have later: "float_less (Finite (now_check (answer 1001 (token_reply (PStr ''U'') (PInt 3600)))))
     (token_expires_at (state (get_access_token fresh_tool ?first)))"
    and got: "ret (get_access_token (state (get_access_token fresh_tool ?first))
                (answer 1001 (token_reply (PStr ''U'') (PInt 3600)))) = Inr ''U''"
    by (simp_all add: unfold_inputs unfold_call)
  from empty_token_never_served [OF h1 h2 h3,
      of "answer 1001 (token_reply (PStr ''U'') (PInt 3600))"] later got
  show ?thesis by simp
qed

end
